theory Spec2Isabelle
  imports Complex_Main
begin

section \<open>Slack response-time monitor: a shallow embedding of bot.py\<close>

text \<open>
  Conventions of the embedding.
  \<^item> A Python \<open>float\<close> timestamp is the rational number it denotes; float
    arithmetic is taken to be exact.
  \<^item> An aware \<open>datetime\<close> is its instant, an integer count of microseconds since
    the epoch, together with the zone it was made in. Every datetime of the monitor is
    made with \<open>ZoneInfo(self.config.business_hours.timezone)\<close>, which is one cached
    object; Python compares and subtracts two aware datetimes that share their tzinfo
    by their local (wall clock) fields, without adjusting for the offset.
    Years outside 1..9999 are not modelled.
  \<^item> A time zone is what \<open>ZoneInfo(name)\<close> resolves to: its UTC offset, in
    microseconds, at each instant. Resolution of the name is the zoneinfo library's.
  \<^item> A dictionary field that may be absent is an \<open>option\<close>; truthiness of strings
    and numbers is written out.
  \<^item> A key that is read with \<open>d[k]\<close> and is absent raises \<open>KeyError\<close>.
\<close>

subsection \<open>Times of day and business hours\<close>

type_synonym datetime = int

type_synonym tzinfo = "int \<Rightarrow> int"

definition UTC :: tzinfo where
  "UTC = (\<lambda>_. 0)"

record dtime =
  hour :: int
  minute :: int
  second :: int
  microsecond :: int

text \<open>Python compares \<open>datetime.time\<close> values field by field, hour first.\<close>

definition time_le :: "dtime \<Rightarrow> dtime \<Rightarrow> bool" where
  "time_le a b =
     (hour a < hour b \<or> (hour a = hour b \<and>
       (minute a < minute b \<or> (minute a = minute b \<and>
         (second a < second b \<or> (second a = second b \<and>
           microsecond a \<le> microsecond b))))))"

definition time_lt :: "dtime \<Rightarrow> dtime \<Rightarrow> bool" where
  "time_lt a b = (time_le a b \<and> a \<noteq> b)"

definition us_per_day :: int where
  "us_per_day = 86400000000"

text \<open>\<open>moment.astimezone(tz)\<close>: the local wall clock, as microseconds since the
  local 1970-01-01T00:00.\<close>

definition astimezone :: "tzinfo \<Rightarrow> datetime \<Rightarrow> int" where
  "astimezone tz moment = moment + tz moment"

text \<open>\<open>weekday()\<close>: Monday is 0, Sunday is 6; 1970-01-01 was a Thursday.\<close>

definition weekday :: "int \<Rightarrow> int" where
  "weekday local = (local div us_per_day + 3) mod 7"

definition time_of :: "int \<Rightarrow> dtime" where
  "time_of local =
     (let r = local mod us_per_day in
      \<lparr> hour = r div 3600000000,
        minute = (r div 60000000) mod 60,
        second = (r div 1000000) mod 60,
        microsecond = r mod 1000000 \<rparr>)"

record BusinessHours =
  start :: dtime
  end_t :: dtime
  timezone :: tzinfo
  weekdays_only :: bool

definition is_open :: "BusinessHours \<Rightarrow> datetime \<Rightarrow> bool" where
  "is_open bh moment =
     (let local_now = astimezone (timezone bh) moment in
      if weekdays_only bh \<and> weekday local_now \<ge> 5 then False
      else time_le (start bh) (time_of local_now) \<and> time_le (time_of local_now) (end_t bh))"

definition hm :: "int \<Rightarrow> int \<Rightarrow> dtime" where
  "hm h m = \<lparr> hour = h, minute = m, second = 0, microsecond = 0 \<rparr>"

text \<open>The defaults of the dataclass: 08:00 to 17:00, UTC, weekdays only.\<close>

definition default_hours :: BusinessHours where
  "default_hours = \<lparr> start = hm 8 0, end_t = hm 17 0, timezone = UTC, weekdays_only = True \<rparr>"

subsection \<open>Configuration, messages, exchange records\<close>

record MonitorConfig =
  channel_owners :: "string \<rightharpoonup> string"
  team_member_ids :: "string list"
  business_hours :: BusinessHours
  business_reply_hours :: int
  overall_reply_hours :: int
  check_interval_minutes :: int

text \<open>A raw message of the API: each key may be absent. \<open>m_ts\<close> is the value
  of \<open>float(msg["ts"])\<close>.\<close>

record RawMessage =
  m_ts :: "rat option"
  m_user :: "string option"
  m_bot_id :: "string option"
  m_text :: "string option"
  m_subtype :: "string option"

record ExchangeRecord =
  client_ts :: rat
  client_text :: string
  team_reply_ts :: "rat option"
  team_reply_text :: "string option"

datatype error = KeyError

subsection \<open>The exchange evaluator\<close>

definition is_valid_message :: "RawMessage \<Rightarrow> bool" where
  "is_valid_message msg =
     (if m_subtype msg \<in> Some ` {''channel_join'', ''bot_message'', ''channel_topic'', ''channel_purpose''}
      then False
      else m_user msg \<noteq> None \<or> m_bot_id msg \<noteq> None)"

definition is_client_message :: "MonitorConfig \<Rightarrow> RawMessage \<Rightarrow> bool" where
  "is_client_message cfg msg =
     (case m_user msg of
        None \<Rightarrow> False
      | Some user_id \<Rightarrow> if user_id = [] then False else user_id \<notin> set (team_member_ids cfg))"

text \<open>The sort key \<open>float(m.get("ts", 0.0))\<close>.\<close>

definition ts_key :: "RawMessage \<Rightarrow> rat" where
  "ts_key m = (case m_ts m of None \<Rightarrow> 0 | Some t \<Rightarrow> t)"

text \<open>The loop over the sorted messages; the state is
  \<open>(last_client_msg, last_team_reply)\<close>.\<close>

fun scan :: "MonitorConfig \<Rightarrow> RawMessage list \<Rightarrow> RawMessage option \<times> RawMessage option
    \<Rightarrow> RawMessage option \<times> RawMessage option" where
  "scan cfg [] st = st"
| "scan cfg (msg # rest) (last_client_msg, last_team_reply) =
     (if \<not> is_valid_message msg then scan cfg rest (last_client_msg, last_team_reply)
      else if is_client_message cfg msg then scan cfg rest (Some msg, None)
      else if last_client_msg \<noteq> None then scan cfg rest (last_client_msg, Some msg)
      else scan cfg rest (last_client_msg, last_team_reply))"

definition text_or_empty :: "RawMessage \<Rightarrow> string" where
  "text_or_empty m = (case m_text m of None \<Rightarrow> [] | Some t \<Rightarrow> t)"

definition evaluate_channel :: "MonitorConfig \<Rightarrow> RawMessage list \<Rightarrow> error + ExchangeRecord option" where
  "evaluate_channel cfg messages =
     (if messages = [] then Inr None
      else
        (case scan cfg (sort_key ts_key messages) (None, None) of
           (None, _) \<Rightarrow> Inr None
         | (Some c, reply) \<Rightarrow>
             (case m_ts c of
                None \<Rightarrow> Inl KeyError
              | Some cts \<Rightarrow>
                  (case reply of
                     None \<Rightarrow> Inr (Some \<lparr> client_ts = cts, client_text = text_or_empty c,
                                        team_reply_ts = None, team_reply_text = None \<rparr>)
                   | Some r \<Rightarrow>
                       (case m_ts r of
                          None \<Rightarrow> Inl KeyError
                        | Some rts \<Rightarrow>
                            Inr (Some \<lparr> client_ts = cts, client_text = text_or_empty c,
                                        team_reply_ts = Some rts,
                                        team_reply_text = Some (text_or_empty r) \<rparr>))))))"

subsection \<open>The status decision\<close>

text \<open>Rounding to the nearest integer, ties to even, as \<open>fromtimestamp\<close> rounds
  to the microsecond.\<close>

definition round_half_even :: "rat \<Rightarrow> int" where
  "round_half_even x =
     (let f = \<lfloor>x\<rfloor>; d = x - of_int f in
      if d < 1 / 2 then f
      else if 1 / 2 < d then f + 1
      else if even f then f else f + 1)"

definition fromtimestamp :: "rat \<Rightarrow> datetime" where
  "fromtimestamp t = round_half_even (t * 1000000)"

text \<open>\<open>datetime.fromtimestamp(ts, tz=ZoneInfo(...))\<close>, as Python compares and
  subtracts it against another datetime of the same zone: the local fields of the
  instant, in microseconds since the local 1970-01-01T00:00.\<close>

definition local_dt :: "tzinfo \<Rightarrow> rat \<Rightarrow> int" where
  "local_dt tz t = astimezone tz (fromtimestamp t)"

text \<open>\<open>(now - client_dt).total_seconds() / 3600\<close>, on the local fields of the two
  datetimes.\<close>

definition hours_between :: "int \<Rightarrow> int \<Rightarrow> rat" where
  "hours_between local_later local_earlier = of_int (local_later - local_earlier) / 1000000 / 3600"

text \<open>\<open>reply_dt\<close>: the truth test \<open>record.get("team_reply_ts")\<close> fails for an
  absent and for a zero timestamp.\<close>

definition reply_dt :: "tzinfo \<Rightarrow> ExchangeRecord \<Rightarrow> int option" where
  "reply_dt tz record =
     (case team_reply_ts record of
        None \<Rightarrow> None
      | Some t \<Rightarrow> if t \<noteq> 0 then Some (local_dt tz t) else None)"

definition threshold :: "MonitorConfig \<Rightarrow> datetime \<Rightarrow> int" where
  "threshold cfg now =
     (if is_open (business_hours cfg) now then business_reply_hours cfg
      else overall_reply_hours cfg)"

definition decide_status :: "MonitorConfig \<Rightarrow> ExchangeRecord \<Rightarrow> datetime \<Rightarrow> string" where
  "decide_status cfg record now =
     (let tz = timezone (business_hours cfg);
          client_dt = local_dt tz (client_ts record) in
      if (case reply_dt tz record of None \<Rightarrow> False | Some r \<Rightarrow> client_dt < r) then ''answered''
      else
        let hours_since_client = hours_between (astimezone tz now) client_dt;
            within_business = is_open (business_hours cfg) now;
            thr = (if within_business then business_reply_hours cfg else overall_reply_hours cfg)
        in if of_int thr \<le> hours_since_client then ''remind'' else ''waiting'')"

subsection \<open>CSV escaping\<close>

definition dquote :: char where
  "dquote = CHR 0x22"

definition newline :: char where
  "newline = CHR 0x0A"

definition carriage_return :: char where
  "carriage_return = CHR 0x0D"

definition space :: char where
  "space = CHR 0x20"

text \<open>\<open>str.replace(old, new)\<close> for a one-character \<open>old\<close>.\<close>

definition replace_char :: "char \<Rightarrow> string \<Rightarrow> string \<Rightarrow> string" where
  "replace_char old new s = concat (map (\<lambda>c. if c = old then new else [c]) s)"

definition csv_escape :: "string \<Rightarrow> string" where
  "csv_escape text_in =
     (let sanitized = replace_char carriage_return [space] (replace_char newline [space] text_in);
          sanitized = replace_char dquote [dquote, dquote] sanitized
      in [dquote] @ sanitized @ [dquote])"

text \<open>A reader of the body of a quoted field, in the words of the specification: a
  doubled quote stands for one quote, a quote on its own is malformed.\<close>

fun unquote_body :: "string \<Rightarrow> string option" where
  "unquote_body [] = Some []"
| "unquote_body [c] = (if c = dquote then None else Some [c])"
| "unquote_body (c # d # cs) =
     (if c = dquote then (if d = dquote then map_option ((#) dquote) (unquote_body cs) else None)
      else map_option ((#) c) (unquote_body (d # cs)))"

definition sanitize_char :: "char \<Rightarrow> char" where
  "sanitize_char c = (if c = newline \<or> c = carriage_return then space else c)"

subsection \<open>Owner resolution\<close>

record Channel =
  c_id :: "string option"
  c_name :: "string option"
  c_name_normalized :: "string option"

definition truthy :: "string option \<Rightarrow> bool" where
  "truthy v = (case v of None \<Rightarrow> False | Some s \<Rightarrow> s \<noteq> [])"

text \<open>Python's \<open>a or b\<close> on optional strings.\<close>

definition py_or :: "string option \<Rightarrow> string option \<Rightarrow> string option" where
  "py_or a b = (if truthy a then a else b)"

text \<open>\<open>key in self.config.channel_owners\<close>; the keys of the mapping are strings, so
  an absent (\<open>None\<close>) key is not in it.\<close>

definition in_owners :: "MonitorConfig \<Rightarrow> string option \<Rightarrow> bool" where
  "in_owners cfg key = (case key of None \<Rightarrow> False | Some k \<Rightarrow> channel_owners cfg k \<noteq> None)"

definition resolve_owner :: "MonitorConfig \<Rightarrow> Channel \<Rightarrow> string option" where
  "resolve_owner cfg channel =
     (let channel_id = c_id channel;
          channel_name = py_or (c_name channel) (c_name_normalized channel)
      in if in_owners cfg channel_id then channel_owners cfg (the channel_id)
         else if truthy channel_name \<and> in_owners cfg channel_name
         then channel_owners cfg (the channel_name)
         else None)"

subsection \<open>One monitoring cycle\<close>

text \<open>The effects of a cycle, in the order they happen: log lines at level info and
  warning, the rows appended to the summary and the trail log, and the calls of
  \<open>_send_reminder\<close>. Debug logging is left out.\<close>

record Descriptor =
  d_id :: string
  d_name :: string
  d_owner_id :: "string option"

datatype event =
    Info_checking string string
  | Info_no_client string string
  | Log_record string string ExchangeRecord string
  | Log_trail string string ExchangeRecord string
  | Send_reminder string string ExchangeRecord datetime
  | Warn_no_owner string string

text \<open>The body of the loop of \<open>check_channels\<close>. \<open>history\<close> gives what
  \<open>_fetch_messages\<close> returns for a channel id. An exception ends the cycle.\<close>

definition check_channel ::
  "MonitorConfig \<Rightarrow> datetime \<Rightarrow> (string \<Rightarrow> RawMessage list) \<Rightarrow> Descriptor \<Rightarrow> event list \<times> error option" where
  "check_channel cfg now history channel =
     (let channel_id = d_id channel;
          channel_name = d_name channel;
          owner_id = d_owner_id channel;
          messages = history channel_id
      in case evaluate_channel cfg messages of
           Inl e \<Rightarrow> ([Info_checking channel_name channel_id], Some e)
         | Inr None \<Rightarrow>
             ([Info_checking channel_name channel_id, Info_no_client channel_id channel_name], None)
         | Inr (Some record) \<Rightarrow>
             (let status = decide_status cfg record now in
              ([Info_checking channel_name channel_id,
                Log_record channel_name channel_id record status,
                Log_trail channel_name channel_id record status]
               @ (if status = ''remind'' \<and> truthy owner_id
                  then [Send_reminder channel_id (the owner_id) record now]
                  else if status = ''remind'' \<and> \<not> truthy owner_id
                  then [Warn_no_owner channel_name channel_id]
                  else []),
               None)))"

fun check_channels ::
  "MonitorConfig \<Rightarrow> datetime \<Rightarrow> (string \<Rightarrow> RawMessage list) \<Rightarrow> Descriptor list \<Rightarrow> event list \<times> error option" where
  "check_channels cfg now history [] = ([], None)"
| "check_channels cfg now history (channel # rest) =
     (case check_channel cfg now history channel of
        (evs, Some e) \<Rightarrow> (evs, Some e)
      | (evs, None) \<Rightarrow>
          (case check_channels cfg now history rest of
             (evs', r) \<Rightarrow> (evs @ evs', r)))"

subsection \<open>Notions used by the properties\<close>

text \<open>The valid messages of a channel, oldest first: what the loop of
  \<open>_evaluate_channel\<close> acts on.\<close>

definition valid_sorted :: "RawMessage list \<Rightarrow> RawMessage list" where
  "valid_sorted messages = filter is_valid_message (sort_key ts_key messages)"

text \<open>\<open>c\<close> is the last valid client message and \<open>replies\<close>, not empty, are the
  valid messages after it, none of them a client's.\<close>

definition exchange_split ::
  "MonitorConfig \<Rightarrow> RawMessage list \<Rightarrow> RawMessage list \<Rightarrow> RawMessage \<Rightarrow> RawMessage list \<Rightarrow> bool" where
  "exchange_split cfg messages pre c replies =
     (valid_sorted messages = pre @ c # replies \<and> is_client_message cfg c \<and>
      list_all (\<lambda>r. \<not> is_client_message cfg r) replies \<and> replies \<noteq> [])"

text \<open>A timestamp that is a whole number of microseconds, as the six-decimal
  timestamps of the API are.\<close>

definition whole_us :: "rat \<Rightarrow> bool" where
  "whole_us t = (of_int \<lfloor>t * 1000000\<rfloor> = t * 1000000)"

text \<open>The \<open>hours_since_client\<close> of \<open>_decide_status\<close>.\<close>

definition elapsed_hours :: "MonitorConfig \<Rightarrow> ExchangeRecord \<Rightarrow> datetime \<Rightarrow> rat" where
  "elapsed_hours cfg record now =
     hours_between (astimezone (timezone (business_hours cfg)) now)
       (local_dt (timezone (business_hours cfg)) (client_ts record))"

text \<open>The hours that passed between the client message and \<open>now\<close>, on the time line:
  what \<open>_send_reminder\<close> reports, \<open>(now.timestamp() - record["client_ts"]) / 3600\<close>,
  before it rounds to one decimal.\<close>

definition true_hours :: "ExchangeRecord \<Rightarrow> datetime \<Rightarrow> rat" where
  "true_hours record now = (of_int now / 1000000 - client_ts record) / 3600"

text \<open>What \<open>_csv_escape\<close> makes of one character.\<close>

definition escape_char :: "char \<Rightarrow> string" where
  "escape_char c = (if c = dquote then [dquote, dquote] else [sanitize_char c])"

text \<open>The effects of one pass through the loop body.\<close>

definition channel_events ::
  "MonitorConfig \<Rightarrow> datetime \<Rightarrow> (string \<Rightarrow> RawMessage list) \<Rightarrow> Descriptor \<Rightarrow> event list" where
  "channel_events cfg now history channel = fst (check_channel cfg now history channel)"

subsection \<open>Example data\<close>

definition mk_msg :: "rat \<Rightarrow> string \<Rightarrow> string \<Rightarrow> RawMessage" where
  "mk_msg t u txt =
     \<lparr> m_ts = Some t, m_user = Some u, m_bot_id = None, m_text = Some txt, m_subtype = None \<rparr>"

definition ex_cfg :: MonitorConfig where
  "ex_cfg = \<lparr> channel_owners = [''C1'' \<mapsto> ''U_ID'', ''general'' \<mapsto> ''U_NAME''],
             team_member_ids = [''T1'', ''T2''],
             business_hours = default_hours,
             business_reply_hours = 4,
             overall_reply_hours = 24,
             check_interval_minutes = 10 \<rparr>"

definition ex_client :: RawMessage where
  "ex_client = mk_msg 1 ''U9'' ''question''"

definition ex_first :: RawMessage where
  "ex_first = mk_msg 2 ''T1'' ''first''"

definition ex_second :: RawMessage where
  "ex_second = mk_msg 3 ''T2'' ''second''"

text \<open>The API delivers the newest message first.\<close>

definition ex_msgs :: "RawMessage list" where
  "ex_msgs = [ex_second, ex_first, ex_client]"

text \<open>A client message one second before the epoch and a reply at the epoch.\<close>

definition ex_epoch_record :: ExchangeRecord where
  "ex_epoch_record = \<lparr> client_ts = -1, client_text = ''question'',
                       team_reply_ts = Some 0, team_reply_text = Some ''reply'' \<rparr>"

text \<open>An unanswered client message of Monday 1970-01-05, at 08:00 UTC.\<close>

definition ex_unanswered :: ExchangeRecord where
  "ex_unanswered = \<lparr> client_ts = 374400, client_text = ''question'',
                     team_reply_ts = None, team_reply_text = None \<rparr>"

text \<open>Business hours that end before they start.\<close>

definition ex_inverted :: BusinessHours where
  "ex_inverted = \<lparr> start = hm 17 0, end_t = hm 8 0, timezone = UTC, weekdays_only = False \<rparr>"

text \<open>Instants of the week of Monday 1970-01-05, in UTC.\<close>

definition monday_0800 :: datetime where
  "monday_0800 = 374400000000"

definition monday_1300 :: datetime where
  "monday_1300 = 392400000000"

definition monday_1700 :: datetime where
  "monday_1700 = 406800000000"

definition monday_2300 :: datetime where
  "monday_2300 = 428400000000"

definition saturday_1200 :: datetime where
  "saturday_1200 = 820800000000"

text \<open>The UTC offset of Europe/Berlin during 2023: two hours from 2023-03-26T01:00Z
  until 2023-10-29T01:00Z, one hour before and after.\<close>

definition ex_berlin :: tzinfo where
  "ex_berlin =
     (\<lambda>t. if 1679792400000000 \<le> t \<and> t < 1698541200000000 then 7200000000 else 3600000000)"

definition berlin_hours :: BusinessHours where
  "berlin_hours = default_hours \<lparr> timezone := ex_berlin \<rparr>"

definition berlin_cfg :: MonitorConfig where
  "berlin_cfg = ex_cfg \<lparr> business_hours := berlin_hours \<rparr>"

text \<open>Business hours of the whole day, every day, in Berlin.\<close>

definition berlin_open_hours :: BusinessHours where
  "berlin_open_hours =
     \<lparr> start = hm 0 0, end_t = hm 23 59, timezone = ex_berlin, weekdays_only = False \<rparr>"

definition berlin_open_cfg :: MonitorConfig where
  "berlin_open_cfg = ex_cfg \<lparr> business_hours := berlin_open_hours \<rparr>"

text \<open>Sunday 2023-10-29 in Berlin, when 03:00 CEST became 02:00 CET: a client message
  at 02:30 CEST (00:30Z), a reply at 02:10 CET (01:10Z), and the instant one minute
  after the reply.\<close>

definition fold_msgs :: "RawMessage list" where
  "fold_msgs = [mk_msg 1698541800 ''T1'' ''reply'', mk_msg 1698539400 ''U9'' ''question'']"

definition fold_record :: ExchangeRecord where
  "fold_record = \<lparr> client_ts = 1698539400, client_text = ''question'',
                   team_reply_ts = Some 1698541800, team_reply_text = Some ''reply'' \<rparr>"

definition fold_now :: datetime where
  "fold_now = 1698541860000000"

text \<open>An unanswered client message of Saturday 2023-10-28 at 02:45 CEST (00:45Z), and
  the instants 02:50 CEST (00:50Z) and 02:10 CET (01:10Z) of the next day.\<close>

definition fold_unanswered :: ExchangeRecord where
  "fold_unanswered = \<lparr> client_ts = 1698453900, client_text = ''question'',
                       team_reply_ts = None, team_reply_text = None \<rparr>"

definition fold_now1 :: datetime where
  "fold_now1 = 1698540600000000"

definition fold_now2 :: datetime where
  "fold_now2 = 1698541800000000"

text \<open>Sunday 2023-03-26 in Berlin, when 02:00 CET became 03:00 CEST: an unanswered
  client message at 00:30 CET (2023-03-25T23:30Z) and the instant three and a half hours
  later, 05:00 CEST (03:00Z).\<close>

definition spring_record :: ExchangeRecord where
  "spring_record = \<lparr> client_ts = 1679787000, client_text = ''question'',
                     team_reply_ts = None, team_reply_text = None \<rparr>"

definition spring_now :: datetime where
  "spring_now = 1679799600000000"

definition ex_channel :: Descriptor where
  "ex_channel = \<lparr> d_id = ''C1'', d_name = ''general'', d_owner_id = Some ''U_ID'' \<rparr>"

definition ex_orphan :: Descriptor where
  "ex_orphan = \<lparr> d_id = ''C2'', d_name = ''random'', d_owner_id = None \<rparr>"

text \<open>Every channel holds one client message, of Monday 1970-01-05 at 00:00 UTC.\<close>

definition ex_history :: "string \<Rightarrow> RawMessage list" where
  "ex_history channel_id = [mk_msg 345600 ''U9'' ''question'']"

definition ex_midnight :: ExchangeRecord where
  "ex_midnight = \<lparr> client_ts = 345600, client_text = ''question'',
                   team_reply_ts = None, team_reply_text = None \<rparr>"

section \<open>Properties\<close>

subsection \<open>Facts about the scan\<close>

lemma scan_filter: "scan cfg xs st = scan cfg (filter is_valid_message xs) st"
  by (induction cfg xs st rule: scan.induct) auto

lemma scan_append: "scan cfg (xs @ ys) st = scan cfg ys (scan cfg xs st)"
  by (induction cfg xs st rule: scan.induct) auto

lemma scan_replies:
  "\<forall>r\<in>set rs. is_valid_message r \<and> \<not> is_client_message cfg r \<Longrightarrow>
   scan cfg rs (Some c, lt) = (Some c, if rs = [] then lt else Some (last rs))"
  by (induction rs arbitrary: lt) auto

lemma scan_split:
  assumes "exchange_split cfg messages pre c replies"
  shows "scan cfg (sort_key ts_key messages) (None, None) = (Some c, Some (last replies))"
proof -
  from assms have vs: "filter is_valid_message (sort_key ts_key messages) = pre @ c # replies"
    and cl: "is_client_message cfg c"
    and rs: "\<forall>r\<in>set replies. \<not> is_client_message cfg r"
    and ne: "replies \<noteq> []"
    by (simp_all add: exchange_split_def valid_sorted_def list_all_iff)
  have "set (pre @ c # replies) \<subseteq> {m. is_valid_message m}"
    unfolding vs [symmetric] by auto
  then have vc: "is_valid_message c" and vr: "\<forall>r\<in>set replies. is_valid_message r"
    by auto
  have "scan cfg (sort_key ts_key messages) (None, None) = scan cfg (pre @ c # replies) (None, None)"
    by (subst scan_filter) (simp only: vs)
  also have "\<dots> = scan cfg (c # replies) (scan cfg pre (None, None))"
    by (rule scan_append)
  also have "\<dots> = scan cfg replies (Some c, None)"
    using vc cl by (cases "scan cfg pre (None, None)") simp
  also have "\<dots> = (Some c, Some (last replies))"
    using vr rs ne by (simp add: scan_replies)
  finally show ?thesis .
qed

lemma messages_nonempty: "exchange_split cfg messages pre c replies \<Longrightarrow> messages \<noteq> []"
  by (auto simp: exchange_split_def valid_sorted_def)

text \<open>
  Claim C1, as amended. When the last valid client message, in timestamp order, is
  followed by one or more valid messages that are not a client's, the record of the
  evaluator carries the timestamp and the text of the LAST of them (the scan keeps
  updating \<open>last_team_reply\<close>); that is the first one only when there is exactly one.
\<close>

theorem evaluate_channel_last_reply:
  assumes "exchange_split cfg messages pre c replies"
    and "m_ts c = Some t" and "m_ts (last replies) = Some t'"
  shows "evaluate_channel cfg messages =
           Inr (Some \<lparr> client_ts = t, client_text = text_or_empty c,
                        team_reply_ts = Some t',
                        team_reply_text = Some (text_or_empty (last replies)) \<rparr>)"
  using assms(2,3) scan_split [OF assms(1)] messages_nonempty [OF assms(1)]
  by (simp add: evaluate_channel_def)

theorem evaluate_channel_last_reply_witness:
  "exchange_split ex_cfg ex_msgs [] ex_client [ex_first, ex_second] \<and>
   evaluate_channel ex_cfg ex_msgs =
     Inr (Some \<lparr> client_ts = 1, client_text = ''question'',
                  team_reply_ts = Some 3, team_reply_text = Some ''second'' \<rparr>)"
  using evaluate_channel_last_reply [of ex_cfg ex_msgs "[]" ex_client "[ex_first, ex_second]" 1 3]
  by (simp add: exchange_split_def valid_sorted_def ex_msgs_def ex_client_def ex_first_def
      ex_second_def mk_msg_def ts_key_def is_valid_message_def is_client_message_def ex_cfg_def
      text_or_empty_def)

text \<open>
  Claim C1 as stated fails: with a client message at 1 and replies at 2 and 3, the
  record does not carry the first reply.
\<close>

theorem first_reply_counterexample:
  "exchange_split ex_cfg ex_msgs [] ex_client [ex_first, ex_second] \<and>
   evaluate_channel ex_cfg ex_msgs \<noteq>
     Inr (Some \<lparr> client_ts = 1, client_text = ''question'',
                  team_reply_ts = m_ts ex_first,
                  team_reply_text = Some (text_or_empty ex_first) \<rparr>)"
  by (simp add: exchange_split_def valid_sorted_def ex_msgs_def ex_client_def ex_first_def
      ex_second_def mk_msg_def ts_key_def is_valid_message_def is_client_message_def ex_cfg_def
      text_or_empty_def evaluate_channel_def)


subsection \<open>Facts about rounding to the microsecond\<close>

lemma rhe_int: "round_half_even (of_int n) = n"
  unfolding round_half_even_def Let_def by simp

lemma fromtimestamp_whole:
  assumes "whole_us t"
  shows "of_int (fromtimestamp t) = t * 1000000"
proof -
  from assms have e: "t * 1000000 = of_int \<lfloor>t * 1000000\<rfloor>"
    unfolding whole_us_def by (rule sym)
  have "round_half_even (t * 1000000) = \<lfloor>t * 1000000\<rfloor>"
    by (subst e) (rule rhe_int)
  then show ?thesis unfolding fromtimestamp_def using e by simp
qed

lemma fromtimestamp_whole_less:
  assumes "whole_us s" "whole_us t"
  shows "fromtimestamp s < fromtimestamp t \<longleftrightarrow> s < t"
proof -
  have "fromtimestamp s < fromtimestamp t
          \<longleftrightarrow> (of_int (fromtimestamp s) :: rat) < of_int (fromtimestamp t)"
    by simp
  also have "\<dots> \<longleftrightarrow> s * 1000000 < t * 1000000"
    using assms by (simp only: fromtimestamp_whole)
  also have "\<dots> \<longleftrightarrow> s < t" by simp
  finally show ?thesis .
qed

subsection \<open>Facts about the order of the scanned messages\<close>

lemma sorted_last_max: "sorted xs \<Longrightarrow> x \<in> set xs \<Longrightarrow> x \<le> last xs"
  by (induction xs) auto

lemma valid_sorted_sorted: "sorted (map ts_key (valid_sorted messages))"
  unfolding valid_sorted_def by (rule sorted_filter) simp

lemma replies_below_last:
  assumes "valid_sorted messages = pre @ c # replies" "r \<in> set replies"
  shows "ts_key r \<le> ts_key (last replies)"
proof -
  have "sorted (map ts_key (pre @ c # replies))"
    using valid_sorted_sorted [of messages] by (simp only: assms(1))
  then have "sorted (map ts_key replies)" by (simp add: sorted_append)
  moreover have "ts_key r \<in> set (map ts_key replies)" using assms(2) by simp
  ultimately have "ts_key r \<le> last (map ts_key replies)" by (rule sorted_last_max)
  moreover have "replies \<noteq> []" using assms(2) by auto
  ultimately show ?thesis by (simp add: last_map)
qed

text \<open>When the last valid client message has a valid reply with a greater timestamp,
  the record of the evaluator has a reply timestamp greater than its client timestamp.\<close>

lemma later_reply_record:
  assumes "exchange_split cfg messages pre c replies"
    and "m_ts c = Some s" and "m_ts (last replies) = Some t'"
    and "\<exists>r\<in>set replies. ts_key c < ts_key r"
  shows "evaluate_channel cfg messages =
           Inr (Some \<lparr> client_ts = s, client_text = text_or_empty c, team_reply_ts = Some t',
                        team_reply_text = Some (text_or_empty (last replies)) \<rparr>) \<and> s < t'"
proof
  show "evaluate_channel cfg messages =
           Inr (Some \<lparr> client_ts = s, client_text = text_or_empty c, team_reply_ts = Some t',
                        team_reply_text = Some (text_or_empty (last replies)) \<rparr>)"
    using assms(2,3) scan_split [OF assms(1)] messages_nonempty [OF assms(1)]
    by (simp add: evaluate_channel_def)
  from assms(4) obtain r where r: "r \<in> set replies" "ts_key c < ts_key r" by blast
  from assms(1) have vs: "valid_sorted messages = pre @ c # replies"
    by (simp add: exchange_split_def)
  have "ts_key r \<le> ts_key (last replies)" using vs r(1) by (rule replies_below_last)
  with r(2) assms(2,3) show "s < t'" by (simp add: ts_key_def)
qed

subsection \<open>The answered verdict\<close>

lemma answered_iff:
  "decide_status cfg record now = ''answered'' \<longleftrightarrow>
     (\<exists>t. team_reply_ts record = Some t \<and> t \<noteq> 0 \<and>
          local_dt (timezone (business_hours cfg)) (client_ts record)
            < local_dt (timezone (business_hours cfg)) t)"
  by (auto simp: decide_status_def reply_dt_def Let_def split: option.splits)

text \<open>Where the zone has the same UTC offset at both messages, and the timestamps are
  whole microseconds, the verdict is \<open>answered\<close> exactly for a later reply that is not
  at the epoch.\<close>

lemma answered_same_offset:
  assumes "team_reply_ts record = Some t"
    and "whole_us (client_ts record)" and "whole_us t"
    and "timezone (business_hours cfg) (fromtimestamp (client_ts record))
           = timezone (business_hours cfg) (fromtimestamp t)"
  shows "decide_status cfg record now = ''answered'' \<longleftrightarrow> t \<noteq> 0 \<and> client_ts record < t"
  using assms
  by (simp add: answered_iff local_dt_def astimezone_def fromtimestamp_whole_less)

lemma rhe_numeral [simp]: "round_half_even (numeral n) = numeral n"
  using rhe_int [of "numeral n"] by simp

lemma rhe_neg_numeral [simp]: "round_half_even (- numeral n) = - numeral n"
  using rhe_int [of "- numeral n"] by simp

lemma default_zone: "timezone default_hours = UTC"
  by (simp add: default_hours_def)

lemma astimezone_UTC: "astimezone UTC moment = moment"
  by (simp add: astimezone_def UTC_def)

text \<open>
  Claim C2. The status decision returns \<open>answered\<close> if and only if the record has a team
  reply whose timestamp is strictly after the timestamp of the client message; and for
  a message list whose last valid client message has a later valid reply, the evaluator
  gives a record with \<open>team_reply_ts > client_ts\<close> on which the verdict is \<open>answered\<close>.
  The code departs from this where the UTC offset of the zone changes between the two
  messages. In Europe/Berlin on 2023-10-29, a client message at 02:30 CEST and a reply
  forty minutes later, at 02:10 CET: the evaluator gives the record with the greater
  reply timestamp, and the verdict, one minute after the reply, is \<open>waiting\<close>.
\<close>

theorem answered_fold_divergence:
  "evaluate_channel berlin_cfg fold_msgs = Inr (Some fold_record) \<and>
   team_reply_ts fold_record = Some 1698541800 \<and>
   client_ts fold_record < 1698541800 \<and>
   decide_status berlin_cfg fold_record fold_now = ''waiting''"
  by (simp add: evaluate_channel_def fold_msgs_def fold_record_def mk_msg_def ts_key_def
      is_valid_message_def is_client_message_def text_or_empty_def berlin_cfg_def ex_cfg_def
      berlin_hours_def default_hours_def ex_berlin_def fold_now_def
      decide_status_def reply_dt_def local_dt_def astimezone_def fromtimestamp_def
      hours_between_def is_open_def weekday_def us_per_day_def)

subsection \<open>The threshold verdicts\<close>

lemma not_answered_verdict:
  "decide_status cfg record now \<noteq> ''answered'' \<Longrightarrow>
   decide_status cfg record now =
     (if of_int (threshold cfg now) \<le> elapsed_hours cfg record now then ''remind'' else ''waiting'')"
  by (simp add: decide_status_def threshold_def elapsed_hours_def Let_def split: if_splits)

lemma no_reply_verdict:
  "team_reply_ts record = None \<Longrightarrow>
   decide_status cfg record now =
     (if of_int (threshold cfg now) \<le> elapsed_hours cfg record now then ''remind'' else ''waiting'')"
  by (simp add: decide_status_def threshold_def elapsed_hours_def reply_dt_def Let_def)

text \<open>Where the zone has the same UTC offset at the client message and at \<open>now\<close>, the
  hours of the status decision are the hours that passed.\<close>

lemma elapsed_same_offset:
  assumes "whole_us (client_ts record)"
    and "timezone (business_hours cfg) (fromtimestamp (client_ts record))
           = timezone (business_hours cfg) now"
  shows "elapsed_hours cfg record now = true_hours record now"
proof -
  have "of_int (fromtimestamp (client_ts record)) = client_ts record * 1000000"
    using assms(1) by (rule fromtimestamp_whole)
  then show ?thesis
    using assms(2)
    by (simp add: elapsed_hours_def true_hours_def hours_between_def local_dt_def astimezone_def
        field_simps)
qed

lemma threshold_rule_same_offset:
  assumes "decide_status cfg record now \<noteq> ''answered''"
    and "whole_us (client_ts record)"
    and "timezone (business_hours cfg) (fromtimestamp (client_ts record))
           = timezone (business_hours cfg) now"
  shows "decide_status cfg record now =
           (if of_int (threshold cfg now) \<le> true_hours record now then ''remind'' else ''waiting'')"
  using not_answered_verdict [OF assms(1)] elapsed_same_offset [OF assms(2,3)] by simp

lemma remind_monotone_same_offset:
  assumes "team_reply_ts record = None"
    and "now1 < now2"
    and "timezone (business_hours cfg) now1 = timezone (business_hours cfg) now2"
    and "is_open (business_hours cfg) now1 = is_open (business_hours cfg) now2"
    and "decide_status cfg record now1 = ''remind''"
  shows "decide_status cfg record now2 = ''remind''"
proof -
  have "threshold cfg now2 = threshold cfg now1" using assms(4) by (simp add: threshold_def)
  moreover have "of_int (threshold cfg now1) \<le> elapsed_hours cfg record now1"
    using assms(5) no_reply_verdict [OF assms(1), of cfg now1] by (simp split: if_splits)
  moreover have "elapsed_hours cfg record now1 \<le> elapsed_hours cfg record now2"
    using assms(2,3)
    by (simp add: elapsed_hours_def hours_between_def astimezone_def divide_right_mono)
  ultimately show ?thesis using no_reply_verdict [OF assms(1), of cfg now2] by simp
qed

lemma ex_open:
  "is_open default_hours monday_0800" "is_open default_hours monday_1300"
  "is_open default_hours monday_1700" "\<not> is_open default_hours monday_2300"
  "\<not> is_open default_hours saturday_1200"
  by (simp_all add: is_open_def default_hours_def UTC_def astimezone_def weekday_def time_of_def
      us_per_day_def hm_def time_le_def monday_0800_def monday_1300_def monday_1700_def
      monday_2300_def saturday_1200_def)

text \<open>
  Claim C3. When the verdict is not \<open>answered\<close>, the status decision takes the hours
  elapsed between the client message and \<open>now\<close>, takes \<open>business_reply_hours\<close> as
  threshold when \<open>now\<close> is inside business hours and \<open>overall_reply_hours\<close> otherwise, and
  returns \<open>remind\<close> exactly when the elapsed hours reach the threshold, else \<open>waiting\<close>.
  The code departs from this where the UTC offset of the zone changes between the client
  message and \<open>now\<close>. In Europe/Berlin on 2023-03-26, with business hours open all day
  and a business threshold of 4 hours: for a client message at 00:30 CET and \<open>now\<close>
  three and a half hours later, at 05:00 CEST, the code takes four and a half hours as
  elapsed and returns \<open>remind\<close>.
\<close>

theorem threshold_spring_divergence:
  "team_reply_ts spring_record = None \<and>
   is_open (business_hours berlin_open_cfg) spring_now \<and>
   threshold berlin_open_cfg spring_now = 4 \<and>
   true_hours spring_record spring_now = 7 / 2 \<and>
   elapsed_hours berlin_open_cfg spring_record spring_now = 9 / 2 \<and>
   decide_status berlin_open_cfg spring_record spring_now = ''remind''"
  by (simp add: spring_record_def spring_now_def berlin_open_cfg_def ex_cfg_def
      berlin_open_hours_def ex_berlin_def hm_def time_le_def
      decide_status_def reply_dt_def local_dt_def astimezone_def fromtimestamp_def
      hours_between_def elapsed_hours_def true_hours_def threshold_def
      is_open_def weekday_def time_of_def us_per_day_def)

text \<open>
  Claim C5. For a record with no team reply and two instants \<open>now1 < now2\<close>, both after
  the client message, with the same business-hours status: if the status decision at
  \<open>now1\<close> is \<open>remind\<close>, it is \<open>remind\<close> at \<open>now2\<close>.
  The code departs from this where the UTC offset of the zone changes between \<open>now1\<close>
  and \<open>now2\<close>. In Europe/Berlin, with the default hours and an overall threshold of 24
  hours, for a client message of 2023-10-28 at 02:45 CEST: at 02:50 CEST of the next day
  the verdict is \<open>remind\<close>, and twenty minutes later, at 02:10 CET, it is \<open>waiting\<close>;
  business hours are closed at both instants.
\<close>

theorem remind_fold_divergence:
  "team_reply_ts fold_unanswered = None \<and>
   fromtimestamp (client_ts fold_unanswered) < fold_now1 \<and> fold_now1 < fold_now2 \<and>
   \<not> is_open (business_hours berlin_cfg) fold_now1 \<and>
   \<not> is_open (business_hours berlin_cfg) fold_now2 \<and>
   decide_status berlin_cfg fold_unanswered fold_now1 = ''remind'' \<and>
   decide_status berlin_cfg fold_unanswered fold_now2 = ''waiting''"
  by (simp add: fold_unanswered_def fold_now1_def fold_now2_def berlin_cfg_def ex_cfg_def
      berlin_hours_def default_hours_def ex_berlin_def
      decide_status_def reply_dt_def local_dt_def astimezone_def fromtimestamp_def
      hours_between_def is_open_def weekday_def us_per_day_def)

subsection \<open>Business hours\<close>



lemma time_le_trans: "time_le a b \<Longrightarrow> time_le b c \<Longrightarrow> time_le a c"
  unfolding time_le_def by auto

lemma time_le_antisym: "time_le a b \<Longrightarrow> time_le b a \<Longrightarrow> a = (b :: dtime)"
  unfolding time_le_def by (cases a, cases b) auto

lemma inverted_closed:
  assumes "time_lt (end_t bh) (start bh)"
  shows "\<not> is_open bh moment"
proof
  assume "is_open bh moment"
  then have "time_le (start bh) (time_of (astimezone (timezone bh) moment))"
    and "time_le (time_of (astimezone (timezone bh) moment)) (end_t bh)"
    by (simp_all add: is_open_def Let_def split: if_splits)
  then have "time_le (start bh) (end_t bh)" by (rule time_le_trans)
  moreover from assms have "time_le (end_t bh) (start bh)" and "end_t bh \<noteq> start bh"
    by (simp_all add: time_lt_def)
  ultimately show False using time_le_antisym by blast
qed



text \<open>
  Claim C9. When the configured \<open>start\<close> is strictly greater than \<open>end\<close>, \<open>is_open\<close>
  returns closed at every instant, so the status decision always applies the
  \<open>overall_reply_hours\<close> threshold.
\<close>

theorem inverted_hours_overall:
  assumes "time_lt (end_t (business_hours cfg)) (start (business_hours cfg))"
  shows "\<not> is_open (business_hours cfg) now \<and>
         threshold cfg now = overall_reply_hours cfg \<and>
         (decide_status cfg record now \<noteq> ''answered'' \<longrightarrow>
            decide_status cfg record now =
              (if of_int (overall_reply_hours cfg) \<le> elapsed_hours cfg record now
               then ''remind'' else ''waiting''))"
proof -
  have c: "\<not> is_open (business_hours cfg) now" using assms by (rule inverted_closed)
  then have t: "threshold cfg now = overall_reply_hours cfg" by (simp add: threshold_def)
  show ?thesis using c t not_answered_verdict [of cfg "record" now] by simp
qed

theorem inverted_hours_overall_witness:
  "time_lt (end_t ex_inverted) (start ex_inverted) \<and>
   \<not> is_open ex_inverted monday_1300 \<and>
   threshold (ex_cfg \<lparr> business_hours := ex_inverted \<rparr>) monday_1300 = 24 \<and>
   decide_status (ex_cfg \<lparr> business_hours := ex_inverted \<rparr>) ex_unanswered monday_1300 = ''waiting''"
proof -
  have a: "time_lt (end_t (business_hours (ex_cfg \<lparr> business_hours := ex_inverted \<rparr>)))
                   (start (business_hours (ex_cfg \<lparr> business_hours := ex_inverted \<rparr>)))"
    by (simp add: ex_inverted_def time_lt_def time_le_def hm_def)
  have e: "elapsed_hours (ex_cfg \<lparr> business_hours := ex_inverted \<rparr>) ex_unanswered monday_1300 = 5"
    by (simp add: elapsed_hours_def hours_between_def local_dt_def astimezone_def
        fromtimestamp_def ex_inverted_def UTC_def ex_unanswered_def monday_1300_def)
  have d: "decide_status (ex_cfg \<lparr> business_hours := ex_inverted \<rparr>) ex_unanswered monday_1300
             \<noteq> ''answered''"
    by (simp add: answered_iff ex_unanswered_def)
  show ?thesis
    using inverted_hours_overall [OF a, of monday_1300 ex_unanswered] a e d
    by (simp add: ex_cfg_def)
qed

text \<open>
  Claim C10. For a record whose \<open>team_reply_ts\<close> is exactly 0, the status decision treats
  the reply as absent: it never returns \<open>answered\<close>, and classifies the record as
  \<open>remind\<close> or \<open>waiting\<close> by the elapsed-hours threshold.
\<close>

theorem epoch_reply_absent:
  assumes "team_reply_ts record = Some 0"
  shows "decide_status cfg record now \<noteq> ''answered'' \<and>
         decide_status cfg record now =
           (if of_int (threshold cfg now) \<le> elapsed_hours cfg record now
            then ''remind'' else ''waiting'')"
proof -
  have "decide_status cfg record now \<noteq> ''answered''"
    using assms by (simp add: answered_iff)
  then show ?thesis using not_answered_verdict by blast
qed

theorem epoch_reply_absent_witness:
  "team_reply_ts ex_epoch_record = Some 0 \<and>
   decide_status ex_cfg ex_epoch_record monday_1300 = ''remind''"
proof -
  have a: "team_reply_ts ex_epoch_record = Some 0" by (simp add: ex_epoch_record_def)
  have o: "threshold ex_cfg monday_1300 = 4"
    using ex_open by (simp add: threshold_def ex_cfg_def)
  have e: "of_int (threshold ex_cfg monday_1300) \<le> elapsed_hours ex_cfg ex_epoch_record monday_1300"
    unfolding o
    by (simp add: elapsed_hours_def hours_between_def local_dt_def ex_epoch_record_def
        fromtimestamp_def monday_1300_def ex_cfg_def default_zone astimezone_UTC)
  show ?thesis using epoch_reply_absent [OF a, of ex_cfg monday_1300] a e by simp
qed


subsection \<open>CSV escaping\<close>

lemma sanitized_eq:
  "replace_char dquote [dquote, dquote]
     (replace_char carriage_return [space] (replace_char newline [space] s))
   = concat (map escape_char s)"
  by (induction s)
    (simp_all add: replace_char_def escape_char_def sanitize_char_def dquote_def newline_def
      carriage_return_def space_def)

lemma csv_escape_eq: "csv_escape s = dquote # concat (map escape_char s) @ [dquote]"
  by (simp add: csv_escape_def Let_def sanitized_eq)

lemma unquote_escape_cons:
  "unquote_body (escape_char c @ rest) = map_option ((#) (sanitize_char c)) (unquote_body rest)"
  by (cases rest)
    (simp_all add: escape_char_def sanitize_char_def dquote_def newline_def
      carriage_return_def space_def)

lemma unquote_escaped: "unquote_body (concat (map escape_char s)) = Some (map sanitize_char s)"
  by (induction s) (simp_all add: unquote_escape_cons)

lemma escaped_no_newline:
  "newline \<notin> set (concat (map escape_char s)) \<and> carriage_return \<notin> set (concat (map escape_char s))"
  by (induction s)
    (auto simp: escape_char_def sanitize_char_def dquote_def newline_def carriage_return_def
      space_def split: if_splits)

text \<open>
  Claim C6. For every input string, \<open>_csv_escape\<close> produces one field that starts and
  ends with a double quote; between them every double quote of the input appears doubled
  and every newline and carriage return is replaced by a space, so that reading the body
  back (a doubled quote standing for one quote) gives the input with those replacements;
  the result contains no newline and no carriage return.
\<close>

theorem csv_escape_spec:
  "csv_escape s = dquote # concat (map escape_char s) @ [dquote] \<and>
   hd (csv_escape s) = dquote \<and> last (csv_escape s) = dquote \<and>
   unquote_body (butlast (tl (csv_escape s))) = Some (map sanitize_char s) \<and>
   newline \<notin> set (csv_escape s) \<and> carriage_return \<notin> set (csv_escape s) \<and>
   csv_escape [CHR ''a'', dquote, CHR ''b'', newline, CHR ''c'']
     = [dquote, CHR ''a'', dquote, dquote, CHR ''b'', space, CHR ''c'', dquote]"
proof (intro conjI)
  show "csv_escape s = dquote # concat (map escape_char s) @ [dquote]" by (rule csv_escape_eq)
  show "hd (csv_escape s) = dquote" by (simp add: csv_escape_eq)
  show "last (csv_escape s) = dquote" by (simp add: csv_escape_eq)
  show "unquote_body (butlast (tl (csv_escape s))) = Some (map sanitize_char s)"
    by (simp add: csv_escape_eq butlast_append unquote_escaped)
  show "newline \<notin> set (csv_escape s)"
    using escaped_no_newline [of s] by (simp add: csv_escape_eq dquote_def newline_def)
  show "carriage_return \<notin> set (csv_escape s)"
    using escaped_no_newline [of s] by (simp add: csv_escape_eq dquote_def carriage_return_def)
  show "csv_escape [CHR ''a'', dquote, CHR ''b'', newline, CHR ''c'']
     = [dquote, CHR ''a'', dquote, dquote, CHR ''b'', space, CHR ''c'', dquote]"
    by (simp add: csv_escape_eq escape_char_def sanitize_char_def dquote_def newline_def
        carriage_return_def space_def)
qed

subsection \<open>Owner resolution\<close>

text \<open>
  Claim C7. Owner resolution looks the channel's id up in \<open>channel_owners\<close> first and,
  when it is absent, the channel's name (\<open>name\<close>, or \<open>name_normalized\<close> when \<open>name\<close> is
  absent or empty). A channel with a name whose owner is configured by name but not by id
  resolves to that owner; one configured under both resolves to the id-keyed owner; one
  configured under neither resolves to no owner.
\<close>

theorem resolve_owner_spec:
  "(resolve_owner cfg channel =
      (case c_id channel of
         Some i \<Rightarrow>
           (case channel_owners cfg i of
              Some owner \<Rightarrow> Some owner
            | None \<Rightarrow>
                (case py_or (c_name channel) (c_name_normalized channel) of
                   Some n \<Rightarrow> if n = [] then None else channel_owners cfg n
                 | None \<Rightarrow> None))
       | None \<Rightarrow>
           (case py_or (c_name channel) (c_name_normalized channel) of
              Some n \<Rightarrow> if n = [] then None else channel_owners cfg n
            | None \<Rightarrow> None))) \<and>
   (c_id channel = Some i \<and> c_name channel = Some n \<and> n \<noteq> [] \<longrightarrow>
      (channel_owners cfg i = None \<and> channel_owners cfg n = Some owner \<longrightarrow>
         resolve_owner cfg channel = Some owner) \<and>
      (channel_owners cfg i = Some id_owner \<and> channel_owners cfg n = Some owner \<longrightarrow>
         resolve_owner cfg channel = Some id_owner) \<and>
      (channel_owners cfg i = None \<and> channel_owners cfg n = None \<longrightarrow>
         resolve_owner cfg channel = None))"
  by (auto simp: resolve_owner_def in_owners_def truthy_def py_or_def Let_def split: option.splits)

theorem resolve_owner_spec_witness:
  "resolve_owner ex_cfg \<lparr> c_id = Some ''C7'', c_name = Some ''general'', c_name_normalized = None \<rparr>
     = Some ''U_NAME'' \<and>
   resolve_owner ex_cfg \<lparr> c_id = Some ''C1'', c_name = Some ''general'', c_name_normalized = None \<rparr>
     = Some ''U_ID'' \<and>
   resolve_owner ex_cfg \<lparr> c_id = Some ''C7'', c_name = Some ''random'', c_name_normalized = None \<rparr>
     = None"
  using
    resolve_owner_spec [of ex_cfg
      "\<lparr> c_id = Some ''C7'', c_name = Some ''general'', c_name_normalized = None \<rparr>"
      "''C7''" "''general''" "''U_NAME''" "''U_ID''", THEN conjunct2]
    resolve_owner_spec [of ex_cfg
      "\<lparr> c_id = Some ''C1'', c_name = Some ''general'', c_name_normalized = None \<rparr>"
      "''C1''" "''general''" "''U_NAME''" "''U_ID''", THEN conjunct2]
    resolve_owner_spec [of ex_cfg
      "\<lparr> c_id = Some ''C7'', c_name = Some ''random'', c_name_normalized = None \<rparr>"
      "''C7''" "''random''" "''U_NAME''" "''U_ID''", THEN conjunct2]
  by (simp add: ex_cfg_def)


subsection \<open>The monitoring cycle\<close>

lemma check_channel_remind:
  assumes "evaluate_channel cfg (history (d_id channel)) = Inr (Some r)"
    and "decide_status cfg r now = ''remind''"
  shows "check_channel cfg now history channel =
           ([Info_checking (d_name channel) (d_id channel),
             Log_record (d_name channel) (d_id channel) r ''remind'',
             Log_trail (d_name channel) (d_id channel) r ''remind'',
             (if truthy (d_owner_id channel)
              then Send_reminder (d_id channel) (the (d_owner_id channel)) r now
              else Warn_no_owner (d_name channel) (d_id channel))], None)"
  using assms by (simp add: check_channel_def Let_def)

lemma check_channel_no_error:
  "\<not> isl (evaluate_channel cfg (history (d_id channel))) \<Longrightarrow>
   snd (check_channel cfg now history channel) = None"
  by (auto simp: check_channel_def Let_def split: sum.splits option.splits)

lemma check_channels_append:
  assumes "\<forall>ch\<in>set before. \<not> isl (evaluate_channel cfg (history (d_id ch)))"
  shows "check_channels cfg now history (before @ rest) =
           (concat (map (channel_events cfg now history) before)
              @ fst (check_channels cfg now history rest),
            snd (check_channels cfg now history rest))"
  using assms
proof (induction before)
  case Nil
  then show ?case by simp
next
  case (Cons ch before)
  then have "snd (check_channel cfg now history ch) = None"
    by (simp add: check_channel_no_error)
  then have "check_channel cfg now history ch = (channel_events cfg now history ch, None)"
    by (simp add: channel_events_def prod_eq_iff)
  with Cons show ?case by (simp split: prod.splits)
qed

text \<open>
  Claim C8. In a monitoring cycle, take a channel that is reached (no earlier channel
  raised), is evaluated to a record and has status \<open>remind\<close>. Its pass through the loop
  writes the summary row and the trail row, both with status \<open>remind\<close>, and then: when
  the channel has an owner, makes exactly one call of the reminder dispatch, to that
  owner, and logs no warning; when it has no owner, makes no such call and logs the
  warning. The cycle then goes on with the remaining channels.
\<close>

theorem remind_dispatch:
  assumes "\<forall>ch\<in>set before. \<not> isl (evaluate_channel cfg (history (d_id ch)))"
    and "evaluate_channel cfg (history (d_id channel)) = Inr (Some r)"
    and "decide_status cfg r now = ''remind''"
  shows "check_channels cfg now history (before @ channel # rest) =
           (concat (map (channel_events cfg now history) before)
              @ [Info_checking (d_name channel) (d_id channel),
                 Log_record (d_name channel) (d_id channel) r ''remind'',
                 Log_trail (d_name channel) (d_id channel) r ''remind'',
                 (if truthy (d_owner_id channel)
                  then Send_reminder (d_id channel) (the (d_owner_id channel)) r now
                  else Warn_no_owner (d_name channel) (d_id channel))]
              @ fst (check_channels cfg now history rest),
            snd (check_channels cfg now history rest))"
proof -
  have "check_channel cfg now history channel =
           ([Info_checking (d_name channel) (d_id channel),
             Log_record (d_name channel) (d_id channel) r ''remind'',
             Log_trail (d_name channel) (d_id channel) r ''remind'',
             (if truthy (d_owner_id channel)
              then Send_reminder (d_id channel) (the (d_owner_id channel)) r now
              else Warn_no_owner (d_name channel) (d_id channel))], None)"
    using assms(2,3) by (rule check_channel_remind)
  then show ?thesis
    using check_channels_append [OF assms(1), of now "channel # rest"]
    by (simp split: prod.splits)
qed

lemma ex_evaluate: "evaluate_channel ex_cfg (ex_history i) = Inr (Some ex_midnight)"
  by (simp add: evaluate_channel_def ex_history_def ex_midnight_def mk_msg_def ts_key_def
      is_valid_message_def is_client_message_def ex_cfg_def text_or_empty_def)

lemma ex_midnight_remind: "decide_status ex_cfg ex_midnight monday_1300 = ''remind''"
  using ex_open
  by (simp add: decide_status_def reply_dt_def local_dt_def ex_midnight_def ex_cfg_def
      fromtimestamp_def hours_between_def monday_1300_def default_zone astimezone_UTC)

theorem remind_dispatch_witness:
  "check_channels ex_cfg monday_1300 ex_history [ex_orphan, ex_channel] =
     ([Info_checking ''random'' ''C2'',
       Log_record ''random'' ''C2'' ex_midnight ''remind'',
       Log_trail ''random'' ''C2'' ex_midnight ''remind'',
       Warn_no_owner ''random'' ''C2'',
       Info_checking ''general'' ''C1'',
       Log_record ''general'' ''C1'' ex_midnight ''remind'',
       Log_trail ''general'' ''C1'' ex_midnight ''remind'',
       Send_reminder ''C1'' ''U_ID'' ex_midnight monday_1300], None)"
proof -
  have a: "\<forall>ch\<in>set [ex_orphan]. \<not> isl (evaluate_channel ex_cfg (ex_history (d_id ch)))"
    by (simp add: ex_evaluate)
  have b: "\<forall>ch\<in>set []. \<not> isl (evaluate_channel ex_cfg (ex_history (d_id ch)))"
    by simp
  have c: "channel_events ex_cfg monday_1300 ex_history ex_orphan =
      [Info_checking ''random'' ''C2'',
       Log_record ''random'' ''C2'' ex_midnight ''remind'',
       Log_trail ''random'' ''C2'' ex_midnight ''remind'',
       Warn_no_owner ''random'' ''C2'']"
    using remind_dispatch [OF b ex_evaluate ex_midnight_remind, of ex_orphan "[]"]
    by (auto simp: channel_events_def ex_orphan_def truthy_def split: prod.splits option.splits)
  show ?thesis
    using remind_dispatch [OF a ex_evaluate ex_midnight_remind, of ex_channel "[]"] c
    by (simp add: ex_channel_def truthy_def)
qed


end
